theory Spec2Isabelle
  imports Main "HOL-Library.Word" "HOL-Library.Sublist"
begin

section \<open>JavaScript strings and the built-ins the sync code calls\<close>

text \<open>
  A JavaScript string is a sequence of 16-bit code units. String literals of the source
  are ASCII; \<open>lit\<close> turns an Isabelle literal into code units.
\<close>

type_synonym code_unit = "16 word"
type_synonym js_string = "code_unit list"

definition lit :: "string \<Rightarrow> js_string" where
  "lit s = map of_char s"

text \<open>
  The code units that \<^verbatim>\<open>String.prototype.trim\<close>, the regular expression class
  \<^verbatim>\<open>\s\<close> and \<^verbatim>\<open>parseInt\<close> treat as white space: TAB, LF, VT, FF, CR, SPACE,
  NBSP, the Unicode space separators, LS, PS and the byte order mark.
\<close>

definition is_ws :: "code_unit \<Rightarrow> bool" where
  "is_ws c \<longleftrightarrow>
     c = 0x09 \<or> c = 0x0A \<or> c = 0x0B \<or> c = 0x0C \<or> c = 0x0D \<or> c = 0x20 \<or>
     c = 0xA0 \<or> c = 0x1680 \<or> (0x2000 \<le> c \<and> c \<le> 0x200A) \<or>
     c = 0x2028 \<or> c = 0x2029 \<or> c = 0x202F \<or> c = 0x205F \<or> c = 0x3000 \<or>
     c = 0xFEFF"

text \<open>\<^verbatim>\<open>s.trim()\<close>: white space removed from both ends.\<close>

definition trim :: "js_string \<Rightarrow> js_string" where
  "trim s = rev (dropWhile is_ws (rev (dropWhile is_ws s)))"

text \<open>\<^verbatim>\<open>s.slice(n)\<close> for a non-negative \<open>n\<close>: the string from index \<open>n\<close> on, empty
  when the string is shorter.\<close>

definition slice :: "nat \<Rightarrow> js_string \<Rightarrow> js_string" where
  "slice n s = drop n s"

text \<open>\<^verbatim>\<open>s.includes(t)\<close>: \<open>t\<close> occurs in \<open>s\<close> as a contiguous run of code units.\<close>

fun includes_str :: "js_string \<Rightarrow> js_string \<Rightarrow> bool" where
  "includes_str [] t = (t = [])"
| "includes_str (c # cs) t = (prefix t (c # cs) \<or> includes_str cs t)"

text \<open>
  \<^verbatim>\<open>s.split("\n")\<close>: the pieces between line feeds. The empty string gives one empty
  piece, and a trailing line feed gives a trailing empty piece.
\<close>

fun split_lines :: "js_string \<Rightarrow> js_string list" where
  "split_lines [] = [[]]"
| "split_lines (c # cs) =
     (if c = 0x0A then [] # split_lines cs
      else (case split_lines cs of
              [] \<Rightarrow> [[c]]
            | l # ls \<Rightarrow> (c # l) # ls))"

text \<open>
  \<^verbatim>\<open>s.split(/\s+/)\<close>: the pieces between maximal runs of white space. The flag says
  that the scan is inside such a run; \<open>cur\<close> is the piece read so far.
\<close>

fun split_ws_from :: "bool \<Rightarrow> js_string \<Rightarrow> js_string \<Rightarrow> js_string list" where
  "split_ws_from inws cur [] = [cur]"
| "split_ws_from inws cur (c # cs) =
     (if is_ws c then
        (if inws then split_ws_from True cur cs
         else cur # split_ws_from True [] cs)
      else split_ws_from False (cur @ [c]) cs)"

definition split_ws :: "js_string \<Rightarrow> js_string list" where
  "split_ws s = split_ws_from False [] s"

text \<open>
  JavaScript numbers as far as the sync code produces them: \<open>NaN\<close>, or the number that
  \<^verbatim>\<open>parseInt\<close> returns for the mathematical integer \<open>n\<close>, written \<open>Num n\<close> (it is
  \<open>n\<close> itself whenever \<open>\<bar>n\<bar> \<le> 2 ^ 53\<close>).
\<close>

datatype js_number = NaN | Num int

definition is_digit :: "code_unit \<Rightarrow> bool" where
  "is_digit c \<longleftrightarrow> 0x30 \<le> c \<and> c \<le> 0x39"

definition digit_val :: "code_unit \<Rightarrow> nat" where
  "digit_val c = unat c - 48"

text \<open>The value of a run of decimal digits, most significant first.\<close>

definition digits_value :: "js_string \<Rightarrow> nat" where
  "digits_value ds = foldl (\<lambda>acc c. 10 * acc + digit_val c) 0 ds"

text \<open>
  \<^verbatim>\<open>parseInt(s, 10)\<close>: skip leading white space, read an optional sign, then the
  longest run of decimal digits; \<open>NaN\<close> when that run is empty.
\<close>

definition parseInt10 :: "js_string \<Rightarrow> js_number" where
  "parseInt10 s =
     (let S = dropWhile is_ws s;
          sign = (if S \<noteq> [] \<and> hd S = 0x2D then -1 else 1 :: int);
          S' = (if S \<noteq> [] \<and> (hd S = 0x2B \<or> hd S = 0x2D) then tl S else S);
          Z = takeWhile is_digit S'
      in if Z = [] then NaN else Num (sign * int (digits_value Z)))"

text \<open>\<^verbatim>\<open>xs[i] ?? d\<close>: the element, or \<open>d\<close> when the index is out of range.\<close>

definition index_or :: "'a list \<Rightarrow> nat \<Rightarrow> 'a \<Rightarrow> 'a" where
  "index_or xs i d = (if i < length xs then xs ! i else d)"

text \<open>\<^verbatim>\<open>a || b\<close> on strings: \<open>a\<close> unless it is the empty string.\<close>

definition or_else :: "js_string \<Rightarrow> js_string \<Rightarrow> js_string" where
  "or_else a b = (if a \<noteq> [] then a else b)"


section \<open>Process runner\<close>

text \<open>
  The git binary and everything it acts on (working tree, index, remote) are outside the
  program. They are a parameter: a runner takes the arguments of one git command and the
  current state of that outside world, and gives the exit code and the two output streams
  of the process together with the new state. The system state also records the argument
  list of every command that was spawned, in order.
\<close>

record proc_exit =
  exitCode :: int
  raw_stdout :: js_string
  raw_stderr :: js_string

type_synonym 'w runner = "js_string list \<Rightarrow> 'w \<Rightarrow> proc_exit \<times> 'w"

record 'w sys =
  issued :: "js_string list list"
  world :: 'w

definition spawn :: "'w runner \<Rightarrow> js_string list \<Rightarrow> 'w sys \<Rightarrow> proc_exit \<times> 'w sys" where
  "spawn exec args s =
     (let (p, w') = exec args (world s)
      in (p, \<lparr>issued = issued s @ [args], world = w'\<rparr>))"

datatype error =
    GitError "js_string list" int js_string js_string
  | BodyError

record CommandOutcome =
  ok :: bool
  stdout :: js_string
  stderr :: js_string

text \<open>\<^verbatim>\<open>git(args)\<close>: the trimmed standard output, or a thrown \<open>GitError\<close> when the exit
  code is not zero.\<close>

definition git :: "'w runner \<Rightarrow> js_string list \<Rightarrow> 'w sys \<Rightarrow> (error + js_string) \<times> 'w sys" where
  "git exec args s =
     (let (p, s') = spawn exec args s
      in if exitCode p \<noteq> 0
         then (Inl (GitError args (exitCode p) (trim (raw_stdout p)) (trim (raw_stderr p))), s')
         else (Inr (trim (raw_stdout p)), s'))"

text \<open>\<^verbatim>\<open>gitSafe(args)\<close>: never throws; the outcome carries both trimmed streams.\<close>

definition gitSafe :: "'w runner \<Rightarrow> js_string list \<Rightarrow> 'w sys \<Rightarrow> CommandOutcome \<times> 'w sys" where
  "gitSafe exec args s =
     (let (p, s') = spawn exec args s
      in (\<lparr>ok = (exitCode p = 0), stdout = trim (raw_stdout p), stderr = trim (raw_stderr p)\<rparr>, s'))"

section \<open>The three git operations\<close>

text \<open>The two tracked data files, relative to the repository root (POSIX \<^verbatim>\<open>join\<close>).\<close>

definition booksPath :: js_string where
  "booksPath = lit ''data/books.json''"

definition configPath :: js_string where
  "configPath = lit ''data/config.json''"

record SyncStatus =
  dirty :: bool
  ahead :: js_number
  behind :: js_number
  changedFiles :: "js_string list"

record PullResult =
  pull_success :: bool
  pull_error :: "js_string option"

record PushResult =
  push_success :: bool
  sha :: "js_string option"
  push_error :: "js_string option"

text \<open>The argument lists of the git commands that the operations run.\<close>

definition dataFiles :: "js_string list" where
  "dataFiles = [booksPath, configPath]"

definition status_args :: "js_string list" where
  "status_args = [lit ''status'', lit ''--porcelain''] @ dataFiles"

definition rev_list_args :: "js_string list" where
  "rev_list_args = [lit ''rev-list'', lit ''--left-right'', lit ''--count'', lit ''HEAD...@'' @ lit ''{u}'']"

definition fetch_args :: "js_string list" where
  "fetch_args = [lit ''fetch'']"

definition ff_pull_args :: "js_string list" where
  "ff_pull_args = [lit ''pull'', lit ''--ff-only'']"

definition add_args :: "js_string list" where
  "add_args = [lit ''add''] @ dataFiles"

definition commit_args :: "js_string \<Rightarrow> js_string list" where
  "commit_args commitMessage = [lit ''commit'', lit ''-m'', commitMessage]"

definition push_args :: "js_string list" where
  "push_args = [lit ''push'', lit ''--force-with-lease'']"

definition rev_parse_args :: "js_string list" where
  "rev_parse_args = [lit ''rev-parse'', lit ''--short'', lit ''HEAD'']"

definition status :: "'w runner \<Rightarrow> 'w sys \<Rightarrow> (error + SyncStatus) \<times> 'w sys" where
  "status exec s0 =
     (case git exec status_args s0 of
        (Inl e, s1) \<Rightarrow> (Inl e, s1)
      | (Inr porcelain, s1) \<Rightarrow>
          (let changedFiles' =
                 map (\<lambda>line. trim (slice 3 line))
                   (filter (\<lambda>line. line \<noteq> []) (split_lines porcelain));
               (revResult, s2) = gitSafe exec rev_list_args s1;
               (ahead', behind') =
                 (if ok revResult then
                    (let parts = split_ws (stdout revResult)
                     in (parseInt10 (index_or parts 0 (lit ''0'')),
                         parseInt10 (index_or parts 1 (lit ''0''))))
                  else (Num 0, Num 0))
           in (Inr \<lparr>dirty = (0 < length changedFiles'), ahead = ahead', behind = behind',
                     changedFiles = changedFiles'\<rparr>, s2)))"

definition pull :: "'w runner \<Rightarrow> 'w sys \<Rightarrow> PullResult \<times> 'w sys" where
  "pull exec s0 =
     (let (fetchResult, s1) = gitSafe exec fetch_args s0
      in if \<not> ok fetchResult then
           (\<lparr>pull_success = False,
             pull_error = Some (lit ''git fetch failed: ''
                                  @ or_else (stderr fetchResult) (stdout fetchResult))\<rparr>, s1)
         else
           (let (pullResult, s2) = gitSafe exec ff_pull_args s1
            in if \<not> ok pullResult then
                 (\<lparr>pull_success = False,
                   pull_error = Some (lit ''git pull --ff-only failed: ''
                                        @ or_else (stderr pullResult) (stdout pullResult))\<rparr>, s2)
               else (\<lparr>pull_success = True, pull_error = None\<rparr>, s2)))"

definition push :: "'w runner \<Rightarrow> js_string \<Rightarrow> 'w sys \<Rightarrow> (error + PushResult) \<times> 'w sys" where
  "push exec commitMessage s0 =
     (case git exec add_args s0 of
        (Inl e, s1) \<Rightarrow> (Inl e, s1)
      | (Inr _, s1) \<Rightarrow>
          (let (commitResult, s2) = gitSafe exec (commit_args commitMessage) s1
           in if \<not> ok commitResult
                 \<and> \<not> includes_str (stdout commitResult) (lit ''nothing to commit'')
                 \<and> \<not> includes_str (stderr commitResult) (lit ''nothing to commit'')
              then
                (Inr \<lparr>push_success = False, sha = None,
                      push_error = Some (lit ''git commit failed: ''
                                           @ or_else (stderr commitResult) (stdout commitResult))\<rparr>, s2)
              else
                (let (pushResult, s3) = gitSafe exec push_args s2
                 in if \<not> ok pushResult then
                      (Inr \<lparr>push_success = False, sha = None,
                            push_error = Some (lit ''git push failed: ''
                                                 @ or_else (stderr pushResult) (stdout pushResult))\<rparr>, s3)
                    else
                      (case git exec rev_parse_args s3 of
                         (Inl e, s4) \<Rightarrow> (Inl e, s4)
                       | (Inr sha', s4) \<Rightarrow>
                           (Inr \<lparr>push_success = True, sha = Some sha', push_error = None\<rparr>, s4)))))"

section \<open>The sync route handler\<close>

text \<open>
  Of a request the handler reads \<^verbatim>\<open>req.method\<close> (the field \<open>http_method\<close>), the path
  of the URL and, for a push, the JSON body, which the source types as an object with an
  optional string \<open>message\<close>. A body that is not JSON makes \<^verbatim>\<open>req.json()\<close> throw:
  \<open>json = None\<close>.
\<close>

record push_body =
  message :: "js_string option"

record request =
  http_method :: js_string
  pathname :: js_string
  json :: "push_body option"

datatype payload =
    StatusJson SyncStatus
  | PullJson PullResult
  | PushJson PushResult
  | Text js_string

record response =
  status_code :: nat
  body :: payload

text \<open>\<^verbatim>\<open>body.message?.trim() || "Update catalogue"\<close>\<close>

definition commit_message :: "push_body \<Rightarrow> js_string" where
  "commit_message b =
     (case message b of
        None \<Rightarrow> lit ''Update catalogue''
      | Some m \<Rightarrow> or_else (trim m) (lit ''Update catalogue''))"

definition handleSync :: "'w runner \<Rightarrow> request \<Rightarrow> 'w sys \<Rightarrow> (error + response) \<times> 'w sys" where
  "handleSync exec req s0 =
     (if http_method req = lit ''GET'' \<and> pathname req = lit ''/api/sync/status'' then
        (case status exec s0 of
           (Inl e, s1) \<Rightarrow> (Inl e, s1)
         | (Inr st, s1) \<Rightarrow> (Inr \<lparr>status_code = 200, body = StatusJson st\<rparr>, s1))
      else if http_method req = lit ''POST'' \<and> pathname req = lit ''/api/sync/pull'' then
        (let (result, s1) = pull exec s0
         in (Inr \<lparr>status_code = (if pull_success result then 200 else 409),
                   body = PullJson result\<rparr>, s1))
      else if http_method req = lit ''POST'' \<and> pathname req = lit ''/api/sync/push'' then
        (case json req of
           None \<Rightarrow> (Inl BodyError, s0)
         | Some b \<Rightarrow>
             (case push exec (commit_message b) s0 of
                (Inl e, s1) \<Rightarrow> (Inl e, s1)
              | (Inr result, s1) \<Rightarrow>
                  (Inr \<lparr>status_code = (if push_success result then 200 else 409),
                        body = PushJson result\<rparr>, s1)))
      else (Inr \<lparr>status_code = 404, body = Text (lit ''Not found'')\<rparr>, s0))"


section \<open>Vocabulary of the properties\<close>

text \<open>The decimal numeral of a natural number, as git prints a commit count.\<close>

fun decimal :: "nat \<Rightarrow> js_string" where
  "decimal n = (if n < 10 then [of_nat (48 + n)]
                else decimal (n div 10) @ [of_nat (48 + n mod 10)])"

declare decimal.simps [simp del]

text \<open>
  The condition under which \<open>push\<close> gives up after the commit: the commit failed and
  neither trimmed stream carries the text \<^verbatim>\<open>nothing to commit\<close>.
\<close>

definition commit_refused :: "proc_exit \<Rightarrow> bool" where
  "commit_refused p \<longleftrightarrow>
     exitCode p \<noteq> 0
     \<and> \<not> includes_str (trim (raw_stdout p)) (lit ''nothing to commit'')
     \<and> \<not> includes_str (trim (raw_stderr p)) (lit ''nothing to commit'')"

subsection \<open>Example repositories\<close>

text \<open>
  A scripted runner answers by the subcommand (the first argument) from a table; a
  subcommand that is not in the table exits with code 0 and prints nothing. The outside
  world has no state of its own here.
\<close>

definition silent :: proc_exit where
  "silent = \<lparr>exitCode = 0, raw_stdout = [], raw_stderr = []\<rparr>"

definition scripted :: "(js_string \<times> proc_exit) list \<Rightarrow> unit runner" where
  "scripted tbl args w =
     (case args of
        [] \<Rightarrow> (silent, w)
      | cmd # _ \<Rightarrow> (case map_of tbl cmd of None \<Rightarrow> (silent, w) | Some p \<Rightarrow> (p, w)))"

definition fresh :: "unit sys" where
  "fresh = \<lparr>issued = [], world = ()\<rparr>"

text \<open>The catalogue was edited and the edit is staged; the branch is two commits ahead.\<close>

definition staged_edit_run :: "unit runner" where
  "staged_edit_run = scripted
     [(lit ''status'',
         \<lparr>exitCode = 0, raw_stdout = lit ''M  data/books.json'' @ [0x0A], raw_stderr = []\<rparr>),
      (lit ''rev-list'',
         \<lparr>exitCode = 0, raw_stdout = lit ''2'' @ [0x09] @ lit ''0'' @ [0x0A], raw_stderr = []\<rparr>)]"

text \<open>The catalogue was edited on disk and nothing is staged: git prints a blank in the
  first status column.\<close>

definition unstaged_edit_run :: "unit runner" where
  "unstaged_edit_run = scripted
     [(lit ''status'',
         \<lparr>exitCode = 0, raw_stdout = lit '' M data/books.json'' @ [0x0A], raw_stderr = []\<rparr>),
      (lit ''rev-list'',
         \<lparr>exitCode = 0, raw_stdout = lit ''0'' @ [0x09] @ lit ''0'' @ [0x0A], raw_stderr = []\<rparr>)]"

text \<open>A clean checkout whose branch has no upstream.\<close>

definition no_upstream_run :: "unit runner" where
  "no_upstream_run = scripted
     [(lit ''rev-list'',
         \<lparr>exitCode = 128, raw_stdout = [],
          raw_stderr = lit ''fatal: no upstream configured'' @ [0x0A]\<rparr>)]"

text \<open>The remote cannot be reached.\<close>

definition offline_run :: "unit runner" where
  "offline_run = scripted
     [(lit ''fetch'',
         \<lparr>exitCode = 128, raw_stdout = [],
          raw_stderr = lit ''fatal: unable to access remote'' @ [0x0A]\<rparr>)]"

text \<open>Nothing to publish: the commit fails and says so on standard output; the push goes
  through.\<close>

definition clean_tree_run :: "unit runner" where
  "clean_tree_run = scripted
     [(lit ''commit'',
         \<lparr>exitCode = 1,
          raw_stdout = lit ''On branch main'' @ [0x0A]
                         @ lit ''nothing to commit, working tree clean'' @ [0x0A],
          raw_stderr = []\<rparr>),
      (lit ''rev-parse'',
         \<lparr>exitCode = 0, raw_stdout = lit ''abc1234'' @ [0x0A], raw_stderr = []\<rparr>)]"


text \<open>A staged edit is committed and pushed.\<close>

definition publish_run :: "unit runner" where
  "publish_run = scripted
     [(lit ''commit'',
         \<lparr>exitCode = 0,
          raw_stdout = lit ''[main abc1234] Update catalogue'' @ [0x0A], raw_stderr = []\<rparr>),
      (lit ''rev-parse'',
         \<lparr>exitCode = 0, raw_stdout = lit ''abc1234'' @ [0x0A], raw_stderr = []\<rparr>)]"

text \<open>The working directory is not a git checkout: staging fails.\<close>

definition broken_checkout_run :: "unit runner" where
  "broken_checkout_run = scripted
     [(lit ''add'',
         \<lparr>exitCode = 128, raw_stdout = [],
          raw_stderr = lit ''fatal: not a git repository'' @ [0x0A]\<rparr>)]"


section \<open>Facts about the string built-ins\<close>

lemma trim_core:
  assumes l: "\<forall>c \<in> set l. is_ws c" and r: "\<forall>c \<in> set r. is_ws c"
    and m: "m \<noteq> []" "\<not> is_ws (hd m)" "\<not> is_ws (last m)"
  shows "trim (l @ m @ r) = m"
proof -
  have front: "dropWhile is_ws (l @ m @ r) = m @ r"
    using l m by (cases m) (simp_all add: dropWhile_append2)
  obtain ys y where ys: "m = ys @ [y]"
    using m(1) by (cases m rule: rev_cases) simp_all
  then have "\<not> is_ws y" using m(3) by simp
  then have "dropWhile is_ws (rev m) = rev m"
    by (simp add: ys)
  moreover have "dropWhile is_ws (rev r @ rev m) = dropWhile is_ws (rev m)"
    by (rule dropWhile_append2) (use r in simp)
  ultimately have "dropWhile is_ws (rev r @ rev m) = rev m"
    by (simp only:)
  then show ?thesis
    by (simp add: trim_def front)
qed

lemma trim_all_ws:
  assumes "\<forall>c \<in> set s. is_ws c"
  shows "trim s = []"
proof -
  have "dropWhile is_ws s = []" using assms by simp
  then have "trim s = rev (dropWhile is_ws (rev []))"
    by (simp only: trim_def)
  then show ?thesis by simp
qed

lemma trim_decomp:
  "\<exists>l r. s = l @ trim s @ r \<and> (\<forall>c \<in> set l. is_ws c) \<and> (\<forall>c \<in> set r. is_ws c)"
proof -
  let ?a = "dropWhile is_ws s"
  have 1: "s = takeWhile is_ws s @ ?a" by simp
  have 2: "rev ?a = takeWhile is_ws (rev ?a) @ dropWhile is_ws (rev ?a)" by simp
  then have "?a = rev (dropWhile is_ws (rev ?a)) @ rev (takeWhile is_ws (rev ?a))"
    by (metis rev_append rev_rev_ident)
  then have "s = takeWhile is_ws s @ trim s @ rev (takeWhile is_ws (rev ?a))"
    using 1 by (simp add: trim_def)
  moreover have "\<forall>c \<in> set (takeWhile is_ws s). is_ws c"
    by (auto dest: set_takeWhileD)
  moreover have "\<forall>c \<in> set (rev (takeWhile is_ws (rev ?a))). is_ws c"
    by (auto dest: set_takeWhileD)
  ultimately show ?thesis by blast
qed

lemma trim_ends:
  assumes "trim s \<noteq> []"
  shows "\<not> is_ws (hd (trim s)) \<and> \<not> is_ws (last (trim s))"
proof -
  let ?b = "dropWhile is_ws (rev (dropWhile is_ws s))"
  have b: "?b \<noteq> []" using assms by (simp add: trim_def)
  then have "\<not> is_ws (hd ?b)" by (rule hd_dropWhile)
  then have last: "\<not> is_ws (last (trim s))"
    using b by (simp add: trim_def last_rev)
  have "hd (trim s) = last ?b" using b by (simp add: trim_def hd_rev)
  moreover have "last ?b = last (rev (dropWhile is_ws s))"
    using b by (metis last_appendR takeWhile_dropWhile_id)
  moreover have "dropWhile is_ws s = [] \<Longrightarrow> ?b = []"
    by (auto dest: set_dropWhileD)
  then have "dropWhile is_ws s \<noteq> []" using b by blast
  then have "\<not> is_ws (hd (dropWhile is_ws s))" by (rule hd_dropWhile)
  moreover have "last (rev (dropWhile is_ws s)) = hd (dropWhile is_ws s)"
    using \<open>dropWhile is_ws s \<noteq> []\<close> by (simp add: last_rev)
  ultimately show ?thesis using last by simp
qed

lemma split_ws_from_word:
  "\<forall>c \<in> set m. \<not> is_ws c \<Longrightarrow> split_ws_from b cur m = [cur @ m]"
  by (induction m arbitrary: b cur) simp_all

lemma split_ws_from_word_sep:
  "\<forall>c \<in> set m. \<not> is_ws c \<Longrightarrow> is_ws x \<Longrightarrow>
   split_ws_from False cur (m @ x # rest) = (cur @ m) # split_ws_from True [] rest"
  by (induction m arbitrary: cur) simp_all

lemma split_ws_from_skip:
  "\<forall>c \<in> set sep. is_ws c \<Longrightarrow> split_ws_from True [] (sep @ rest) = split_ws_from True [] rest"
  by (induction sep) simp_all

lemma split_ws_two:
  assumes a: "\<forall>c \<in> set a. \<not> is_ws c" and b: "\<forall>c \<in> set b. \<not> is_ws c" "b \<noteq> []"
    and sep: "\<forall>c \<in> set sep. is_ws c" "sep \<noteq> []"
  shows "split_ws (a @ sep @ b) = [a, b]"
proof -
  obtain x sep' where s: "sep = x # sep'" using sep(2) by (cases sep) auto
  obtain y b' where y: "b = y # b'" using b(2) by (cases b) auto
  have "split_ws (a @ sep @ b) = a # split_ws_from True [] (sep' @ b)"
    using a sep(1) s by (simp add: split_ws_def split_ws_from_word_sep)
  also have "split_ws_from True [] (sep' @ b) = split_ws_from True [] b"
    using sep(1) s by (simp add: split_ws_from_skip)
  also have "\<dots> = [b]"
    using b(1) y by (simp add: split_ws_from_word)
  finally show ?thesis .
qed

lemma includes_str_iff: "includes_str s t \<longleftrightarrow> sublist t s"
  by (induction s) (auto simp: sublist_Cons_right)

lemma sublist_dropWhile:
  assumes "sublist t s" "t \<noteq> []" "\<not> P (hd t)"
  shows "sublist t (dropWhile P s)"
proof -
  obtain ps ss where s: "s = ps @ t @ ss" using assms(1) by (auto simp: sublist_def)
  show ?thesis
  proof (cases "\<forall>x \<in> set ps. P x")
    case True
    then have "dropWhile P s = t @ ss"
      using assms(2,3) s by (cases t) (simp_all add: dropWhile_append2)
    then show ?thesis by (auto simp: sublist_def intro: exI [of _ "[]"])
  next
    case False
    then obtain x where "x \<in> set ps" "\<not> P x" by blast
    then have "dropWhile P s = dropWhile P ps @ t @ ss"
      using s by (simp add: dropWhile_append1)
    then show ?thesis by (auto simp: sublist_def)
  qed
qed

lemma includes_str_trim:
  assumes "t \<noteq> []" "\<not> is_ws (hd t)" "\<not> is_ws (last t)"
  shows "includes_str (trim s) t \<longleftrightarrow> includes_str s t"
proof
  assume "includes_str (trim s) t"
  then obtain ps ss where "trim s = ps @ t @ ss"
    by (auto simp: includes_str_iff sublist_def)
  moreover obtain l r where "s = l @ trim s @ r" using trim_decomp by blast
  ultimately have "s = (l @ ps) @ t @ (ss @ r)" by simp
  then show "includes_str s t" unfolding includes_str_iff sublist_def by blast
next
  assume "includes_str s t"
  then have "sublist t s" by (simp add: includes_str_iff)
  then have "sublist t (dropWhile is_ws s)"
    using assms by (intro sublist_dropWhile)
  then have "sublist (rev t) (rev (dropWhile is_ws s))"
    by (simp add: sublist_rev)
  then have "sublist (rev t) (dropWhile is_ws (rev (dropWhile is_ws s)))"
    using assms by (intro sublist_dropWhile) (simp_all add: hd_rev)
  then show "includes_str (trim s) t"
    by (simp add: includes_str_iff trim_def sublist_rev_left)
qed

lemma digit_not_ws: "is_digit c \<Longrightarrow> \<not> is_ws c"
  by (auto simp: is_digit_def is_ws_def word_le_nat_alt)

lemma unat_digit: "d < 10 \<Longrightarrow> unat (of_nat (48 + d) :: code_unit) = 48 + d"
  by (simp add: unat_of_nat del: of_nat_add)

lemma is_digit_of_nat: "d < 10 \<Longrightarrow> is_digit (of_nat (48 + d))"
  by (simp add: is_digit_def word_le_nat_alt unat_digit del: of_nat_add)

lemma digit_val_of_nat: "d < 10 \<Longrightarrow> digit_val (of_nat (48 + d)) = d"
  by (simp add: digit_val_def unat_digit del: of_nat_add)

lemma decimal_digits: "c \<in> set (decimal n) \<Longrightarrow> is_digit c"
proof (induction n arbitrary: c rule: decimal.induct)
  case (1 n)
  show ?case
  proof (cases "n < 10")
    case True
    with "1.prems" show ?thesis
      by (simp add: decimal.simps [of n] is_digit_of_nat del: of_nat_add)
  next
    case False
    with "1.prems" "1.IH" show ?thesis
      by (auto simp: decimal.simps [of n] is_digit_of_nat simp del: of_nat_add)
  qed
qed

lemma decimal_nonempty: "decimal n \<noteq> []"
  by (subst decimal.simps) simp

lemma digits_value_snoc: "digits_value (ds @ [c]) = 10 * digits_value ds + digit_val c"
  by (simp add: digits_value_def)

lemma digits_value_decimal: "digits_value (decimal n) = n"
proof (induction n rule: decimal.induct)
  case (1 n)
  show ?case
  proof (cases "n < 10")
    case True
    then show ?thesis
      by (simp add: decimal.simps [of n] digits_value_def digit_val_of_nat del: of_nat_add)
  next
    case False
    with "1.IH" show ?thesis
      by (simp add: decimal.simps [of n] digits_value_snoc digit_val_of_nat del: of_nat_add)
  qed
qed

lemma parseInt10_digits:
  assumes "ds \<noteq> []" and "\<forall>c \<in> set ds. is_digit c"
  shows "parseInt10 ds = Num (int (digits_value ds))"
proof -
  obtain d rest where ds: "ds = d # rest"
    using assms(1) by (cases ds) auto
  have d: "is_digit d" using assms(2) ds by simp
  then have nws: "\<not> is_ws d" by (rule digit_not_ws)
  from d have nsign: "d \<noteq> 0x2D" "d \<noteq> 0x2B"
    by (auto simp: is_digit_def)
  have tw: "takeWhile is_digit ds = ds"
    using assms(2) by (simp add: takeWhile_eq_all_conv)
  have dw: "dropWhile is_ws ds = ds"
    using nws ds by simp
  show ?thesis
    unfolding parseInt10_def dw Let_def
    using nsign tw ds by simp
qed

lemma parseInt10_decimal: "parseInt10 (decimal n) = Num (int n)"
  using parseInt10_digits [of "decimal n"] decimal_digits decimal_nonempty
  by (simp add: digits_value_decimal)

lemma decimal_no_ws: "c \<in> set (decimal n) \<Longrightarrow> \<not> is_ws c"
  by (rule digit_not_ws) (rule decimal_digits)

lemma counts_trim:
  assumes ws: "\<forall>c \<in> set (l @ sep @ r). is_ws c"
  shows "trim (l @ decimal a @ sep @ decimal b @ r) = decimal a @ sep @ decimal b"
proof -
  let ?m = "decimal a @ sep @ decimal b"
  have "hd ?m = hd (decimal a)" "last ?m = last (decimal b)"
    using decimal_nonempty by simp_all
  moreover have "hd (decimal a) \<in> set (decimal a)" "last (decimal b) \<in> set (decimal b)"
    using decimal_nonempty by simp_all
  ultimately have ends: "\<not> is_ws (hd ?m)" "\<not> is_ws (last ?m)"
    using decimal_no_ws by simp_all
  have "trim (l @ ?m @ r) = ?m"
    using ws ends decimal_nonempty by (intro trim_core) simp_all
  then show ?thesis by simp
qed

lemma counts_split:
  assumes "\<forall>c \<in> set sep. is_ws c" "sep \<noteq> []"
  shows "split_ws (decimal a @ sep @ decimal b) = [decimal a, decimal b]"
  using assms decimal_no_ws decimal_nonempty by (intro split_ws_two) auto

lemma decimal_small: "decimal 0 = lit ''0''" "decimal 2 = lit ''2''"
  by (simp_all add: decimal.simps [of 0] decimal.simps [of 2] lit_def)

lemma signal_shape:
  "lit ''nothing to commit'' \<noteq> []"
  "\<not> is_ws (hd (lit ''nothing to commit''))"
  "\<not> is_ws (last (lit ''nothing to commit''))"
  by (simp_all add: lit_def is_ws_def)

lemma commit_refused_raw:
  "commit_refused p \<longleftrightarrow>
     exitCode p \<noteq> 0
     \<and> \<not> includes_str (raw_stdout p) (lit ''nothing to commit'')
     \<and> \<not> includes_str (raw_stderr p) (lit ''nothing to commit'')"
  by (simp add: commit_refused_def includes_str_trim [OF signal_shape])

section \<open>One run of each operation, command by command\<close>

lemma git_run:
  assumes "exec args w = (p, w')"
  shows "git exec args \<lparr>issued = tr, world = w\<rparr> =
           (if exitCode p \<noteq> 0
            then Inl (GitError args (exitCode p) (trim (raw_stdout p)) (trim (raw_stderr p)))
            else Inr (trim (raw_stdout p)),
            \<lparr>issued = tr @ [args], world = w'\<rparr>)"
  using assms by (simp add: git_def spawn_def)

lemma gitSafe_run:
  assumes "exec args w = (p, w')"
  shows "gitSafe exec args \<lparr>issued = tr, world = w\<rparr> =
           (\<lparr>ok = (exitCode p = 0), stdout = trim (raw_stdout p), stderr = trim (raw_stderr p)\<rparr>,
            \<lparr>issued = tr @ [args], world = w'\<rparr>)"
  using assms by (simp add: gitSafe_def spawn_def)

lemma status_run:
  assumes "exec status_args w0 = (p1, w1)"
    and "exec rev_list_args w1 = (p2, w2)"
  shows "status exec \<lparr>issued = tr, world = w0\<rparr> =
    (if exitCode p1 \<noteq> 0 then
       (Inl (GitError status_args (exitCode p1) (trim (raw_stdout p1)) (trim (raw_stderr p1))),
        \<lparr>issued = tr @ [status_args], world = w1\<rparr>)
     else
       (Inr \<lparr>dirty = (0 < length (filter (\<lambda>line. line \<noteq> []) (split_lines (trim (raw_stdout p1))))),
             ahead = (if exitCode p2 = 0
                      then parseInt10 (index_or (split_ws (trim (raw_stdout p2))) 0 (lit ''0''))
                      else Num 0),
             behind = (if exitCode p2 = 0
                       then parseInt10 (index_or (split_ws (trim (raw_stdout p2))) 1 (lit ''0''))
                       else Num 0),
             changedFiles = map (\<lambda>line. trim (slice 3 line))
                              (filter (\<lambda>line. line \<noteq> []) (split_lines (trim (raw_stdout p1))))\<rparr>,
        \<lparr>issued = tr @ [status_args, rev_list_args], world = w2\<rparr>))"
  using assms unfolding status_def
  by (simp add: git_run gitSafe_run Let_def)

lemma pull_run:
  assumes "exec fetch_args w0 = (p1, w1)"
    and "exec ff_pull_args w1 = (p2, w2)"
  shows "pull exec \<lparr>issued = tr, world = w0\<rparr> =
    (if exitCode p1 \<noteq> 0 then
       (\<lparr>pull_success = False,
         pull_error = Some (lit ''git fetch failed: ''
                              @ or_else (trim (raw_stderr p1)) (trim (raw_stdout p1)))\<rparr>,
        \<lparr>issued = tr @ [fetch_args], world = w1\<rparr>)
     else if exitCode p2 \<noteq> 0 then
       (\<lparr>pull_success = False,
         pull_error = Some (lit ''git pull --ff-only failed: ''
                              @ or_else (trim (raw_stderr p2)) (trim (raw_stdout p2)))\<rparr>,
        \<lparr>issued = tr @ [fetch_args, ff_pull_args], world = w2\<rparr>)
     else
       (\<lparr>pull_success = True, pull_error = None\<rparr>,
        \<lparr>issued = tr @ [fetch_args, ff_pull_args], world = w2\<rparr>))"
  using assms unfolding pull_def
  by (simp add: gitSafe_run)

lemma push_run:
  assumes "exec add_args w0 = (p1, w1)"
    and "exec (commit_args msg) w1 = (p2, w2)"
    and "exec push_args w2 = (p3, w3)"
    and "exec rev_parse_args w3 = (p4, w4)"
  shows "push exec msg \<lparr>issued = tr, world = w0\<rparr> =
    (if exitCode p1 \<noteq> 0 then
       (Inl (GitError add_args (exitCode p1) (trim (raw_stdout p1)) (trim (raw_stderr p1))),
        \<lparr>issued = tr @ [add_args], world = w1\<rparr>)
     else if commit_refused p2 then
       (Inr \<lparr>push_success = False, sha = None,
             push_error = Some (lit ''git commit failed: ''
                                  @ or_else (trim (raw_stderr p2)) (trim (raw_stdout p2)))\<rparr>,
        \<lparr>issued = tr @ [add_args, commit_args msg], world = w2\<rparr>)
     else if exitCode p3 \<noteq> 0 then
       (Inr \<lparr>push_success = False, sha = None,
             push_error = Some (lit ''git push failed: ''
                                  @ or_else (trim (raw_stderr p3)) (trim (raw_stdout p3)))\<rparr>,
        \<lparr>issued = tr @ [add_args, commit_args msg, push_args], world = w3\<rparr>)
     else if exitCode p4 \<noteq> 0 then
       (Inl (GitError rev_parse_args (exitCode p4) (trim (raw_stdout p4)) (trim (raw_stderr p4))),
        \<lparr>issued = tr @ [add_args, commit_args msg, push_args, rev_parse_args], world = w4\<rparr>)
     else
       (Inr \<lparr>push_success = True, sha = Some (trim (raw_stdout p4)), push_error = None\<rparr>,
        \<lparr>issued = tr @ [add_args, commit_args msg, push_args, rev_parse_args], world = w4\<rparr>))"
  using assms unfolding push_def commit_refused_def
  by (simp add: git_run gitSafe_run)

lemma subcommands_distinct:
  "hd add_args \<noteq> lit ''fetch''" "hd add_args \<noteq> lit ''pull''"
  "hd (commit_args msg) \<noteq> lit ''fetch''" "hd (commit_args msg) \<noteq> lit ''pull''"
  "hd push_args \<noteq> lit ''fetch''" "hd push_args \<noteq> lit ''pull''"
  "hd rev_parse_args \<noteq> lit ''fetch''" "hd rev_parse_args \<noteq> lit ''pull''"
  by (simp_all add: add_args_def commit_args_def push_args_def rev_parse_args_def lit_def)

lemma commit_message_absent: "message b = None \<Longrightarrow> commit_message b = lit ''Update catalogue''"
  by (simp add: commit_message_def)

lemma commit_message_present:
  "message b = Some m \<Longrightarrow>
   commit_message b = (if trim m = [] then lit ''Update catalogue'' else trim m)"
  by (simp add: commit_message_def or_else_def)

lemma handleSync_push:
  assumes "http_method req = lit ''POST''" and "pathname req = lit ''/api/sync/push''"
    and "json req = Some b"
  shows "handleSync exec req s =
           (case push exec (commit_message b) s of
              (Inl e, s1) \<Rightarrow> (Inl e, s1)
            | (Inr result, s1) \<Rightarrow>
                (Inr \<lparr>status_code = (if push_success result then 200 else 409),
                      body = PushJson result\<rparr>, s1))"
  using assms by (simp add: handleSync_def lit_def)

text \<open>Unfolding the scripted runners and the argument lists on concrete inputs.\<close>

lemmas script_defs =
  scripted_def silent_def fresh_def lit_def dataFiles_def booksPath_def configPath_def
  status_args_def rev_list_args_def fetch_args_def ff_pull_args_def add_args_def
  commit_args_def push_args_def rev_parse_args_def

lemmas string_defs =
  trim_def is_ws_def slice_def split_ws_def index_or_def or_else_def parseInt10_def
  is_digit_def digits_value_def digit_val_def

lemma push_clean_tree_default:
  "push clean_tree_run (lit ''Update catalogue'') fresh =
     (Inr \<lparr>push_success = True, sha = Some (lit ''abc1234''), push_error = None\<rparr>,
      \<lparr>issued = [add_args, commit_args (lit ''Update catalogue''), push_args, rev_parse_args],
        world = ()\<rparr>)"
proof -
  let ?msg = "lit ''Update catalogue''"
  let ?c = "\<lparr>exitCode = 1,
          raw_stdout = lit ''On branch main'' @ [0x0A]
                         @ lit ''nothing to commit, working tree clean'' @ [0x0A],
          raw_stderr = []\<rparr>"
  let ?h = "\<lparr>exitCode = 0, raw_stdout = lit ''abc1234'' @ [0x0A], raw_stderr = []\<rparr>"
  have a: "clean_tree_run add_args () = (silent, ())"
    by (simp add: clean_tree_run_def script_defs)
  have c: "clean_tree_run (commit_args ?msg) () = (?c, ())"
    by (simp add: clean_tree_run_def script_defs)
  have p: "clean_tree_run push_args () = (silent, ())"
    by (simp add: clean_tree_run_def script_defs)
  have h: "clean_tree_run rev_parse_args () = (?h, ())"
    by (simp add: clean_tree_run_def script_defs)
  have "includes_str (raw_stdout ?c) (lit ''nothing to commit'')"
    by (simp add: lit_def)
  then have nr: "\<not> commit_refused ?c"
    by (simp add: commit_refused_raw)
  have t: "trim (raw_stdout ?h) = lit ''abc1234''"
    by (simp add: lit_def string_defs)
  show ?thesis
    unfolding fresh_def
    by (subst push_run [where exec = clean_tree_run, OF a c p h]) (use nr t in \<open>simp add: silent_def\<close>)
qed

section \<open>Properties of the divergence reporter\<close>

text \<open>
  Claim C1. Whenever \<open>status\<close> returns a result (rather than throwing), its \<open>dirty\<close> flag
  is true exactly when \<open>changedFiles\<close> has length greater than zero.
\<close>

theorem status_dirty_iff_changedFiles:
  assumes "status exec s = (Inr st, s')"
  shows "dirty st \<longleftrightarrow> 0 < length (changedFiles st)"
  using assms unfolding status_def
  by (auto simp: Let_def split: prod.splits sum.splits if_splits)

theorem status_dirty_iff_changedFiles_witness:
  "status staged_edit_run fresh =
     (Inr \<lparr>dirty = True, ahead = Num 2, behind = Num 0,
           changedFiles = [lit ''data/books.json'']\<rparr>,
      \<lparr>issued = [status_args, rev_list_args], world = ()\<rparr>)
   \<and> (dirty \<lparr>dirty = True, ahead = Num 2, behind = Num 0,
             changedFiles = [lit ''data/books.json'']\<rparr>
        \<longleftrightarrow> 0 < length (changedFiles \<lparr>dirty = True, ahead = Num 2, behind = Num 0,
                                       changedFiles = [lit ''data/books.json'']\<rparr>))"
proof -
  have run: "status staged_edit_run fresh =
     (Inr \<lparr>dirty = True, ahead = Num 2, behind = Num 0,
           changedFiles = [lit ''data/books.json'']\<rparr>,
      \<lparr>issued = [status_args, rev_list_args], world = ()\<rparr>)"
    unfolding fresh_def
    by (subst status_run [where ?p1.0 = "\<lparr>exitCode = 0, raw_stdout = lit ''M  data/books.json'' @ [0x0A], raw_stderr = []\<rparr>"
          and ?p2.0 = "\<lparr>exitCode = 0, raw_stdout = lit ''2'' @ [0x09] @ lit ''0'' @ [0x0A], raw_stderr = []\<rparr>"
          and ?w1.0 = "()" and ?w2.0 = "()"])
       (simp_all add: staged_edit_run_def script_defs string_defs)
  from status_dirty_iff_changedFiles [OF run] run show ?thesis
    by simp
qed

text \<open>
  Claim C6. Let the porcelain status command succeed. If the ahead/behind count command
  exits with a code other than zero, \<open>status\<close> returns a result (no error) with
  \<open>ahead = 0\<close> and \<open>behind = 0\<close>. If it exits with code zero and prints the decimal
  numerals of \<open>a\<close> and \<open>b\<close> separated by white space (with any white space around
  them), \<open>status\<close> returns \<open>ahead = a\<close> and \<open>behind = b\<close>.
\<close>

theorem status_ahead_behind:
  assumes "exec status_args w0 = (p1, w1)" and "exitCode p1 = 0"
    and "exec rev_list_args w1 = (p2, w2)"
  shows "(exitCode p2 \<noteq> 0 \<longrightarrow>
            (\<exists>st. fst (status exec \<lparr>issued = tr, world = w0\<rparr>) = Inr st
                \<and> ahead st = Num 0 \<and> behind st = Num 0))
       \<and> (exitCode p2 = 0
            \<and> raw_stdout p2 = l @ decimal a @ sep @ decimal b @ r
            \<and> sep \<noteq> [] \<and> (\<forall>c \<in> set (l @ sep @ r). is_ws c) \<longrightarrow>
            (\<exists>st. fst (status exec \<lparr>issued = tr, world = w0\<rparr>) = Inr st
                \<and> ahead st = Num (int a) \<and> behind st = Num (int b)))"
proof (intro conjI impI)
  assume "exitCode p2 \<noteq> 0"
  then show "\<exists>st. fst (status exec \<lparr>issued = tr, world = w0\<rparr>) = Inr st
                \<and> ahead st = Num 0 \<and> behind st = Num 0"
    using assms(2) by (simp add: status_run [OF assms(1,3)])
next
  assume h: "exitCode p2 = 0
            \<and> raw_stdout p2 = l @ decimal a @ sep @ decimal b @ r
            \<and> sep \<noteq> [] \<and> (\<forall>c \<in> set (l @ sep @ r). is_ws c)"
  then have "trim (raw_stdout p2) = decimal a @ sep @ decimal b"
    using counts_trim [of l sep r a b] by simp
  moreover have "split_ws (decimal a @ sep @ decimal b) = [decimal a, decimal b]"
    using h by (intro counts_split) simp_all
  ultimately have "split_ws (trim (raw_stdout p2)) = [decimal a, decimal b]"
    by simp
  then show "\<exists>st. fst (status exec \<lparr>issued = tr, world = w0\<rparr>) = Inr st
                \<and> ahead st = Num (int a) \<and> behind st = Num (int b)"
    using assms(2) h
    by (simp add: status_run [OF assms(1,3)] index_or_def parseInt10_decimal)
qed

theorem status_ahead_behind_witness:
  "(exitCode (fst (no_upstream_run rev_list_args ())) \<noteq> 0
      \<and> (\<exists>st. fst (status no_upstream_run fresh) = Inr st
            \<and> ahead st = Num 0 \<and> behind st = Num 0))
   \<and> (fst (staged_edit_run rev_list_args ()) =
         \<lparr>exitCode = 0, raw_stdout = lit ''2'' @ [0x09] @ lit ''0'' @ [0x0A], raw_stderr = []\<rparr>
      \<and> (\<exists>st. fst (status staged_edit_run fresh) = Inr st
            \<and> ahead st = Num 2 \<and> behind st = Num 0))"
proof -
  have a1: "no_upstream_run status_args () = (silent, ())"
    by (simp add: no_upstream_run_def script_defs)
  have a2: "exitCode silent = 0" by (simp add: silent_def)
  have a3: "no_upstream_run rev_list_args () =
     (\<lparr>exitCode = 128, raw_stdout = [],
       raw_stderr = lit ''fatal: no upstream configured'' @ [0x0A]\<rparr>, ())"
    by (simp add: no_upstream_run_def script_defs)
  have b1: "staged_edit_run status_args () =
     (\<lparr>exitCode = 0, raw_stdout = lit ''M  data/books.json'' @ [0x0A], raw_stderr = []\<rparr>, ())"
    by (simp add: staged_edit_run_def script_defs)
  have b3: "staged_edit_run rev_list_args () =
     (\<lparr>exitCode = 0, raw_stdout = lit ''2'' @ [0x09] @ lit ''0'' @ [0x0A], raw_stderr = []\<rparr>, ())"
    by (simp add: staged_edit_run_def script_defs)
  have ws: "is_ws 0x09" "is_ws 0x0A" by (simp_all add: is_ws_def)
  from status_ahead_behind [where exec = no_upstream_run and tr = "[]", OF a1 a2 a3]
  have first: "\<exists>st. fst (status no_upstream_run fresh) = Inr st
            \<and> ahead st = Num 0 \<and> behind st = Num 0"
    by (simp add: fresh_def)
  from status_ahead_behind [where exec = staged_edit_run and tr = "[]"
      and l = "[]" and a = 2 and sep = "[0x09]" and b = 0 and r = "[0x0A]", OF b1 _ b3]
  have second: "\<exists>st. fst (status staged_edit_run fresh) = Inr st
            \<and> ahead st = Num 2 \<and> behind st = Num 0"
    using ws by (simp add: fresh_def decimal_small)
  from first second a3 b3 show ?thesis by simp
qed

text \<open>
  Claim C7, at a concrete repository. When the catalogue file is modified and not staged,
  git prints the line \<^verbatim>\<open> M data/books.json\<close>, whose status code starts with a blank.
  \<open>git\<close> trims the whole output before \<open>status\<close> splits it into lines, so the first
  line has lost that blank when its first three code units are cut off: the entry is
  \<^verbatim>\<open>ata/books.json\<close>, not the path \<^verbatim>\<open>data/books.json\<close>.
\<close>

theorem status_unstaged_edit_loses_first_letter:
  "unstaged_edit_run status_args () =
     (\<lparr>exitCode = 0, raw_stdout = lit '' M data/books.json'' @ [0x0A], raw_stderr = []\<rparr>, ())
   \<and> fst (status unstaged_edit_run fresh) =
       Inr \<lparr>dirty = True, ahead = Num 0, behind = Num 0,
            changedFiles = [lit ''ata/books.json'']\<rparr>"
  by (simp add: status_def git_def gitSafe_def spawn_def unstaged_edit_run_def script_defs string_defs)

section \<open>Properties of the fast-forward puller\<close>

text \<open>
  Claim C3 as stated fails: when the fetch fails, the error text does not start with
  \<^verbatim>\<open>fetch failed: \<close>. At the repository whose remote cannot be reached it is
  \<^verbatim>\<open>git fetch failed: fatal: unable to access remote\<close>.
\<close>

theorem pull_error_prefix_counterexample:
  "exitCode (fst (offline_run fetch_args ())) \<noteq> 0
   \<and> trim (raw_stderr (fst (offline_run fetch_args ()))) = lit ''fatal: unable to access remote''
   \<and> pull_error (fst (pull offline_run fresh))
       = Some (lit ''git fetch failed: fatal: unable to access remote'')
   \<and> pull_error (fst (pull offline_run fresh))
       \<noteq> Some (lit ''fetch failed: '' @ lit ''fatal: unable to access remote'')"
  by (simp add: pull_def gitSafe_def spawn_def offline_run_def script_defs string_defs)

text \<open>
  Claim C3, amended. If the fetch exits with a code other than zero, \<open>pull\<close> returns
  failure with the error \<^verbatim>\<open>git fetch failed: \<close> followed by the trimmed standard error
  of the command, or by its trimmed standard output when the trimmed standard error is
  empty. If the fetch succeeds and the fast-forward-only pull exits with a code other than
  zero, it returns failure with the error \<^verbatim>\<open>git pull --ff-only failed: \<close> followed by
  that command's trimmed standard error or else standard output. Otherwise it returns
  success without an error.
\<close>

theorem pull_result:
  assumes "exec fetch_args w0 = (p1, w1)"
    and "exec ff_pull_args w1 = (p2, w2)"
  shows "fst (pull exec \<lparr>issued = tr, world = w0\<rparr>) =
    (if exitCode p1 \<noteq> 0 then
       \<lparr>pull_success = False,
        pull_error = Some (lit ''git fetch failed: ''
                             @ (if trim (raw_stderr p1) \<noteq> [] then trim (raw_stderr p1)
                                else trim (raw_stdout p1)))\<rparr>
     else if exitCode p2 \<noteq> 0 then
       \<lparr>pull_success = False,
        pull_error = Some (lit ''git pull --ff-only failed: ''
                             @ (if trim (raw_stderr p2) \<noteq> [] then trim (raw_stderr p2)
                                else trim (raw_stdout p2)))\<rparr>
     else \<lparr>pull_success = True, pull_error = None\<rparr>)"
  by (simp add: pull_run [OF assms] or_else_def)

theorem pull_result_witness:
  "offline_run fetch_args () =
     (\<lparr>exitCode = 128, raw_stdout = [],
       raw_stderr = lit ''fatal: unable to access remote'' @ [0x0A]\<rparr>, ())
   \<and> offline_run ff_pull_args () = (silent, ())
   \<and> fst (pull offline_run fresh) =
       \<lparr>pull_success = False,
        pull_error = Some (lit ''git fetch failed: fatal: unable to access remote'')\<rparr>"
proof -
  have f: "offline_run fetch_args () =
     (\<lparr>exitCode = 128, raw_stdout = [],
       raw_stderr = lit ''fatal: unable to access remote'' @ [0x0A]\<rparr>, ())"
    by (simp add: offline_run_def script_defs)
  have p: "offline_run ff_pull_args () = (silent, ())"
    by (simp add: offline_run_def script_defs)
  from pull_result [where exec = offline_run and tr = "[]", OF f p] f p show ?thesis
    by (simp add: script_defs string_defs)
qed

section \<open>Properties of the guarded publisher\<close>




text \<open>
  Claim C4. The commands that one call of \<open>push\<close> spawns are, in this order, the staging
  of the two data files, the commit with the given message, the lease-guarded push and
  the reading of the short hash; the sequence stops after the first step that fails (a
  commit that only reports that there is nothing to commit does not count as failed).
  A failed staging is thrown as an error. A refused commit and a rejected push are
  returned as a result without success. After a successful push the short hash is read
  strictly: its failure is thrown, otherwise the result is success with the trimmed
  hash. No command of the sequence is a fetch or a pull.
\<close>

theorem push_command_sequence:
  assumes "exec add_args w0 = (p1, w1)"
    and "exec (commit_args msg) w1 = (p2, w2)"
    and "exec push_args w2 = (p3, w3)"
    and "exec rev_parse_args w3 = (p4, w4)"
  shows "add_args = [lit ''add'', booksPath, configPath]
       \<and> commit_args msg = [lit ''commit'', lit ''-m'', msg]
       \<and> push_args = [lit ''push'', lit ''--force-with-lease'']
       \<and> rev_parse_args = [lit ''rev-parse'', lit ''--short'', lit ''HEAD'']
       \<and> issued (snd (push exec msg \<lparr>issued = tr, world = w0\<rparr>)) =
           tr @ (if exitCode p1 \<noteq> 0 then [add_args]
                 else if commit_refused p2 then [add_args, commit_args msg]
                 else if exitCode p3 \<noteq> 0 then [add_args, commit_args msg, push_args]
                 else [add_args, commit_args msg, push_args, rev_parse_args])
       \<and> (exitCode p1 \<noteq> 0 \<longrightarrow>
            fst (push exec msg \<lparr>issued = tr, world = w0\<rparr>)
              = Inl (GitError add_args (exitCode p1) (trim (raw_stdout p1)) (trim (raw_stderr p1))))
       \<and> (exitCode p1 = 0 \<and> (commit_refused p2 \<or> exitCode p3 \<noteq> 0) \<longrightarrow>
            (\<exists>r. fst (push exec msg \<lparr>issued = tr, world = w0\<rparr>) = Inr r
                 \<and> \<not> push_success r \<and> sha r = None))
       \<and> (exitCode p1 = 0 \<and> \<not> commit_refused p2 \<and> exitCode p3 = 0 \<longrightarrow>
            fst (push exec msg \<lparr>issued = tr, world = w0\<rparr>)
              = (if exitCode p4 \<noteq> 0
                 then Inl (GitError rev_parse_args (exitCode p4)
                             (trim (raw_stdout p4)) (trim (raw_stderr p4)))
                 else Inr \<lparr>push_success = True, sha = Some (trim (raw_stdout p4)),
                           push_error = None\<rparr>))
       \<and> (\<forall>args \<in> set (drop (length tr) (issued (snd (push exec msg \<lparr>issued = tr, world = w0\<rparr>)))).
            hd args \<noteq> lit ''fetch'' \<and> hd args \<noteq> lit ''pull'')"
proof (intro conjI)
  show "add_args = [lit ''add'', booksPath, configPath]"
    by (simp add: add_args_def dataFiles_def)
  show "commit_args msg = [lit ''commit'', lit ''-m'', msg]"
    by (simp add: commit_args_def)
  show "push_args = [lit ''push'', lit ''--force-with-lease'']"
    by (simp add: push_args_def)
  show "rev_parse_args = [lit ''rev-parse'', lit ''--short'', lit ''HEAD'']"
    by (simp add: rev_parse_args_def)
qed (simp_all add: push_run [OF assms] subcommands_distinct)

theorem push_command_sequence_witness:
  "issued (snd (push publish_run (lit ''Update catalogue'') fresh))
     = [add_args, commit_args (lit ''Update catalogue''), push_args, rev_parse_args]
   \<and> fst (push publish_run (lit ''Update catalogue'') fresh)
       = Inr \<lparr>push_success = True, sha = Some (lit ''abc1234''), push_error = None\<rparr>
   \<and> issued (snd (push broken_checkout_run (lit ''Update catalogue'') fresh)) = [add_args]
   \<and> fst (push broken_checkout_run (lit ''Update catalogue'') fresh)
       = Inl (GitError add_args 128 [] (lit ''fatal: not a git repository''))"
proof -
  let ?msg = "lit ''Update catalogue''"
  let ?c = "\<lparr>exitCode = 0,
          raw_stdout = lit ''[main abc1234] Update catalogue'' @ [0x0A], raw_stderr = []\<rparr>"
  let ?h = "\<lparr>exitCode = 0, raw_stdout = lit ''abc1234'' @ [0x0A], raw_stderr = []\<rparr>"
  let ?a = "\<lparr>exitCode = 128, raw_stdout = [],
          raw_stderr = lit ''fatal: not a git repository'' @ [0x0A]\<rparr>"
  have a: "publish_run add_args () = (silent, ())"
    by (simp add: publish_run_def script_defs)
  have c: "publish_run (commit_args ?msg) () = (?c, ())"
    by (simp add: publish_run_def script_defs)
  have p: "publish_run push_args () = (silent, ())"
    by (simp add: publish_run_def script_defs)
  have h: "publish_run rev_parse_args () = (?h, ())"
    by (simp add: publish_run_def script_defs)
  have t: "trim (raw_stdout ?h) = lit ''abc1234''"
    by (simp add: lit_def string_defs)
  have nr: "\<not> commit_refused ?c"
    by (simp add: commit_refused_def)
  have a': "broken_checkout_run add_args () = (?a, ())"
    by (simp add: broken_checkout_run_def script_defs)
  have c': "broken_checkout_run (commit_args ?msg) () = (silent, ())"
    by (simp add: broken_checkout_run_def script_defs)
  have p': "broken_checkout_run push_args () = (silent, ())"
    by (simp add: broken_checkout_run_def script_defs)
  have h': "broken_checkout_run rev_parse_args () = (silent, ())"
    by (simp add: broken_checkout_run_def script_defs)
  have t': "trim (raw_stdout ?a) = []" "trim (raw_stderr ?a) = lit ''fatal: not a git repository''"
    by (simp_all add: lit_def string_defs)
  from push_command_sequence [where exec = publish_run and tr = "[]" and msg = ?msg, OF a c p h]
  have ok: "issued (snd (push publish_run ?msg fresh))
     = [add_args, commit_args ?msg, push_args, rev_parse_args]
   \<and> fst (push publish_run ?msg fresh)
       = Inr \<lparr>push_success = True, sha = Some (lit ''abc1234''), push_error = None\<rparr>"
    using nr t by (simp add: fresh_def silent_def)
  from push_command_sequence [where exec = broken_checkout_run and tr = "[]" and msg = ?msg,
      OF a' c' p' h']
  have bad: "issued (snd (push broken_checkout_run ?msg fresh)) = [add_args]
   \<and> fst (push broken_checkout_run ?msg fresh)
       = Inl (GitError add_args 128 [] (lit ''fatal: not a git repository''))"
    using t' by (simp add: fresh_def)
  from ok bad show ?thesis by simp
qed

section \<open>Properties of the sync route handler\<close>

text \<open>
  Claim C10. A request that is none of GET \<^verbatim>\<open>/api/sync/status\<close>, POST
  \<^verbatim>\<open>/api/sync/pull\<close> and POST \<^verbatim>\<open>/api/sync/push\<close> is answered with status 404, and
  the system state is returned as it was: no git command has been spawned.
\<close>

theorem handleSync_not_found:
  assumes "\<not> (http_method req = lit ''GET'' \<and> pathname req = lit ''/api/sync/status'')"
    and "\<not> (http_method req = lit ''POST'' \<and> pathname req = lit ''/api/sync/pull'')"
    and "\<not> (http_method req = lit ''POST'' \<and> pathname req = lit ''/api/sync/push'')"
  shows "handleSync exec req s = (Inr \<lparr>status_code = 404, body = Text (lit ''Not found'')\<rparr>, s)"
  unfolding handleSync_def by (simp only: assms if_False)

theorem handleSync_not_found_witness:
  "handleSync offline_run
     \<lparr>http_method = lit ''GET'', pathname = lit ''/api/sync/push'', json = None\<rparr> fresh
   = (Inr \<lparr>status_code = 404, body = Text (lit ''Not found'')\<rparr>, fresh)
   \<and> issued fresh = []"
  using handleSync_not_found [of "\<lparr>http_method = lit ''GET'', pathname = lit ''/api/sync/push'', json = None\<rparr>"
      offline_run fresh]
  by (simp add: lit_def fresh_def)

text \<open>
  Claim C8. For a POST to \<^verbatim>\<open>/api/sync/push\<close> with a JSON body: when the \<open>message\<close>
  field is absent, empty or made of white space only, the commit message is the fixed
  default \<^verbatim>\<open>Update catalogue\<close>; the request is not rejected, the handler runs \<open>push\<close>
  with that message; and whenever \<open>push\<close> returns a result, the response carries it
  with status 200 if the result has \<open>success\<close> true and 409 otherwise.
\<close>

theorem handleSync_push_default_message:
  assumes "http_method req = lit ''POST''" and "pathname req = lit ''/api/sync/push''"
    and "json req = Some b"
  shows "(message b = None \<or> (\<exists>m. message b = Some m \<and> (\<forall>c \<in> set m. is_ws c)) \<longrightarrow>
            commit_message b = lit ''Update catalogue'')
       \<and> snd (handleSync exec req s) = snd (push exec (commit_message b) s)
       \<and> (\<forall>r s1. push exec (commit_message b) s = (Inr r, s1) \<longrightarrow>
            handleSync exec req s =
              (Inr \<lparr>status_code = (if push_success r then 200 else 409), body = PushJson r\<rparr>, s1))"
proof (intro conjI impI allI)
  assume "message b = None \<or> (\<exists>m. message b = Some m \<and> (\<forall>c \<in> set m. is_ws c))"
  then show "commit_message b = lit ''Update catalogue''"
    by (auto simp: commit_message_absent commit_message_present trim_all_ws)
next
  show "snd (handleSync exec req s) = snd (push exec (commit_message b) s)"
    by (simp add: handleSync_push [OF assms] split: prod.splits sum.splits)
next
  fix r s1
  assume "push exec (commit_message b) s = (Inr r, s1)"
  then show "handleSync exec req s =
      (Inr \<lparr>status_code = (if push_success r then 200 else 409), body = PushJson r\<rparr>, s1)"
    by (simp add: handleSync_push [OF assms])
qed

theorem handleSync_push_default_message_witness:
  "commit_message \<lparr>message = Some (lit ''   '')\<rparr> = lit ''Update catalogue''
   \<and> handleSync clean_tree_run
       \<lparr>http_method = lit ''POST'', pathname = lit ''/api/sync/push'',
        json = Some \<lparr>message = Some (lit ''   '')\<rparr>\<rparr> fresh
     = (Inr \<lparr>status_code = 200,
             body = PushJson \<lparr>push_success = True, sha = Some (lit ''abc1234''),
                              push_error = None\<rparr>\<rparr>,
        \<lparr>issued = [add_args, commit_args (lit ''Update catalogue''), push_args, rev_parse_args],
          world = ()\<rparr>)"
proof -
  let ?b = "\<lparr>message = Some (lit ''   '')\<rparr>"
  let ?req = "\<lparr>http_method = lit ''POST'', pathname = lit ''/api/sync/push'', json = Some ?b\<rparr>"
  have ws: "\<forall>c \<in> set (lit ''   ''). is_ws c"
    by (simp add: lit_def is_ws_def)
  from handleSync_push_default_message [where req = ?req and b = ?b
      and exec = clean_tree_run and s = fresh]
  have *: "(message ?b = None \<or> (\<exists>m. message ?b = Some m \<and> (\<forall>c \<in> set m. is_ws c)) \<longrightarrow>
            commit_message ?b = lit ''Update catalogue'')
       \<and> (\<forall>r s1. push clean_tree_run (commit_message ?b) fresh = (Inr r, s1) \<longrightarrow>
            handleSync clean_tree_run ?req fresh =
              (Inr \<lparr>status_code = (if push_success r then 200 else 409), body = PushJson r\<rparr>, s1))"
    by simp
  then have m: "commit_message ?b = lit ''Update catalogue''"
    using ws by simp
  with * push_clean_tree_default show ?thesis
    by simp
qed

text \<open>
  Claim C9. For a POST to \<^verbatim>\<open>/api/sync/push\<close> whose body has a \<open>message\<close>: the trimmed
  message is the message without the white space at its two ends, the commit message is
  the trimmed message unless that is empty, when it is the default, and (staging
  succeeding) the commit command that is spawned carries exactly that message.
\<close>

theorem handleSync_push_trims_message:
  assumes "http_method req = lit ''POST''" and "pathname req = lit ''/api/sync/push''"
    and "json req = Some b" and "message b = Some m"
    and "exec add_args w0 = (p1, w1)" and "exitCode p1 = 0"
  shows "(\<exists>l r. m = l @ trim m @ r \<and> (\<forall>c \<in> set l. is_ws c) \<and> (\<forall>c \<in> set r. is_ws c))
       \<and> (trim m \<noteq> [] \<longrightarrow> \<not> is_ws (hd (trim m)) \<and> \<not> is_ws (last (trim m)))
       \<and> commit_message b = (if trim m = [] then lit ''Update catalogue'' else trim m)
       \<and> take 2 (drop (length tr) (issued (snd (handleSync exec req \<lparr>issued = tr, world = w0\<rparr>))))
           = [add_args, commit_args (if trim m = [] then lit ''Update catalogue'' else trim m)]"
proof -
  let ?msg = "if trim m = [] then lit ''Update catalogue'' else trim m"
  have cm: "commit_message b = ?msg"
    using assms(4) by (rule commit_message_present)
  obtain p2 w2 where c: "exec (commit_args ?msg) w1 = (p2, w2)" by fastforce
  obtain p3 w3 where p: "exec push_args w2 = (p3, w3)" by fastforce
  obtain p4 w4 where h: "exec rev_parse_args w3 = (p4, w4)" by fastforce
  have "snd (handleSync exec req \<lparr>issued = tr, world = w0\<rparr>)
          = snd (push exec ?msg \<lparr>issued = tr, world = w0\<rparr>)"
    by (simp add: handleSync_push [OF assms(1-3)] cm split: prod.splits sum.splits)
  then have "take 2 (drop (length tr) (issued (snd (handleSync exec req \<lparr>issued = tr, world = w0\<rparr>))))
           = [add_args, commit_args ?msg]"
    using assms(6) by (simp add: push_run [OF assms(5) c p h])
  with cm trim_decomp [of m] trim_ends [of m] show ?thesis
    by blast
qed

theorem handleSync_push_trims_message_witness:
  "trim (lit ''  fix typo '' @ [0x0A]) = lit ''fix typo''
   \<and> take 2 (issued (snd (handleSync publish_run
        \<lparr>http_method = lit ''POST'', pathname = lit ''/api/sync/push'',
         json = Some \<lparr>message = Some (lit ''  fix typo '' @ [0x0A])\<rparr>\<rparr> fresh)))
       = [add_args, commit_args (lit ''fix typo'')]"
proof -
  let ?m = "lit ''  fix typo '' @ [0x0A]"
  let ?b = "\<lparr>message = Some ?m\<rparr>"
  let ?req = "\<lparr>http_method = lit ''POST'', pathname = lit ''/api/sync/push'', json = Some ?b\<rparr>"
  have t: "trim ?m = lit ''fix typo''"
    by (simp add: lit_def string_defs)
  have a: "publish_run add_args () = (silent, ())"
    by (simp add: publish_run_def script_defs)
  from handleSync_push_trims_message [where req = ?req and b = ?b and m = ?m
      and exec = publish_run and tr = "[]", OF _ _ _ _ a]
  have "take 2 (issued (snd (handleSync publish_run ?req fresh)))
           = [add_args, commit_args (if trim ?m = [] then lit ''Update catalogue'' else trim ?m)]"
    by (simp add: fresh_def silent_def)
  then show ?thesis
    unfolding t by (simp add: lit_def)
qed

end
